theory Spec2Isabelle
  imports
    Main
    "HOL-Library.AList"
    "HOL-Library.Char_ord"
    "HOL-Library.List_Lexorder"
    "HOL-Library.Word"
begin

section \<open>Library functions the client calls\<close>

text \<open>
  The client is Go. A Go \<^verbatim>\<open>string\<close> is a sequence of bytes, which is what \<^typ>\<open>string\<close> is
  here. The functions of this section belong to Go's standard library (\<^verbatim>\<open>fmt\<close>,
  \<^verbatim>\<open>strconv\<close>, \<^verbatim>\<open>net/url\<close>); they are embedded as far as the client uses them.
\<close>

subsection \<open>fmt and strconv\<close>

text \<open>The digit of a number below 10; it is not used on any other.\<close>

definition digit_char :: "nat \<Rightarrow> char" where
  "digit_char d = ''0123456789'' ! d"

text \<open>The decimal digits of a natural number, most significant first.\<close>

fun FormatUint :: "nat \<Rightarrow> string" where
  "FormatUint n =
     (if n < 10 then [digit_char n] else FormatUint (n div 10) @ [digit_char (n mod 10)])"

declare FormatUint.simps [simp del]

text \<open>\<^verbatim>\<open>fmt.Sprintf("%d", i)\<close> on an integer, and \<^verbatim>\<open>(*big.Int).Text(10)\<close>.\<close>

definition Sprintf_d :: "int \<Rightarrow> string" where
  "Sprintf_d i = (if i < 0 then CHR ''-'' # FormatUint (nat (- i)) else FormatUint (nat i))"

text \<open>
  \<^verbatim>\<open>fmt.Sprintf("%d", s)\<close> on a string: the verb does not fit the operand, and fmt prints
  the verb, the operand's type and the operand.
\<close>

definition Sprintf_d_string :: "string \<Rightarrow> string" where
  "Sprintf_d_string s = ''%!d(string='' @ s @ '')''"

text \<open>\<^verbatim>\<open>fmt.Sprintf("%v", b)\<close> on a bool, and \<^verbatim>\<open>strconv.FormatBool\<close>.\<close>

definition Sprintf_v :: "bool \<Rightarrow> string" where
  "Sprintf_v b = (if b then ''true'' else ''false'')"

definition FormatBool :: "bool \<Rightarrow> string" where
  "FormatBool b = (if b then ''true'' else ''false'')"

text \<open>
  \<^verbatim>\<open>strconv.ParseBool\<close>. The client only compares the error with nil, so the result is an
  option: \<open>None\<close> is a non-nil error (the value returned with it is \<open>false\<close>).
\<close>

definition ParseBool :: "string \<Rightarrow> bool option" where
  "ParseBool str =
     (if str \<in> set [''1'', ''t'', ''T'', ''TRUE'', ''true'', ''True''] then Some True
      else if str \<in> set [''0'', ''f'', ''F'', ''FALSE'', ''false'', ''False''] then Some False
      else None)"

subsection \<open>net/url: Values and QueryEscape\<close>

text \<open>
  \<^verbatim>\<open>url.Values\<close> is a \<^verbatim>\<open>map[string][]string\<close>: an association list with one pair per
  key. \<open>Values_at v key\<close> is the map index \<^verbatim>\<open>v[key]\<close>, nil (the empty list) for an absent
  key. \<^verbatim>\<open>Set\<close> replaces the values of a key, \<^verbatim>\<open>Add\<close> appends one, \<^verbatim>\<open>Del\<close> removes the key.
\<close>

type_synonym Values = "(string \<times> string list) list"

definition Values_at :: "Values \<Rightarrow> string \<Rightarrow> string list" where
  "Values_at v key = (case map_of v key of None \<Rightarrow> [] | Some vs \<Rightarrow> vs)"

definition Values_Set :: "string \<Rightarrow> string \<Rightarrow> Values \<Rightarrow> Values" where
  "Values_Set key val v = AList.update key [val] v"

definition Values_Add :: "string \<Rightarrow> string \<Rightarrow> Values \<Rightarrow> Values" where
  "Values_Add key val v = AList.update key (Values_at v key @ [val]) v"

definition Values_Del :: "string \<Rightarrow> Values \<Rightarrow> Values" where
  "Values_Del key v = AList.delete key v"

text \<open>
  \<^verbatim>\<open>shouldEscape(c, encodeQueryComponent)\<close>: letters, digits and the four marks stay,
  every other byte is escaped.
\<close>

definition shouldEscape :: "char \<Rightarrow> bool" where
  "shouldEscape c =
     (if (CHR ''a'' \<le> c \<and> c \<le> CHR ''z'') \<or> (CHR ''A'' \<le> c \<and> c \<le> CHR ''Z'')
          \<or> (CHR ''0'' \<le> c \<and> c \<le> CHR ''9'') then False
      else if c \<in> set ''-_.~'' then False
      else True)"

definition upperhex :: string where
  "upperhex = ''0123456789ABCDEF''"

definition escape_byte :: "char \<Rightarrow> string" where
  "escape_byte c =
     (if c = CHR '' '' then ''+''
      else if shouldEscape c then
        [CHR ''%'', upperhex ! (of_char c div 16), upperhex ! (of_char c mod 16)]
      else [c])"

definition QueryEscape :: "string \<Rightarrow> string" where
  "QueryEscape s = concat (map escape_byte s)"

text \<open>
  \<^verbatim>\<open>Values.Encode\<close>: the keys in sorted order, for each key its values in their order, each
  pair written as \<open>key=value\<close> with both sides escaped, and \<open>&\<close> between the pairs.
\<close>

definition Values_entries :: "Values \<Rightarrow> (string \<times> string) list" where
  "Values_entries v = concat (map (\<lambda>k. map (Pair k) (Values_at v k)) (sort (map fst v)))"

definition write_pair :: "string \<times> string \<Rightarrow> string" where
  "write_pair e = QueryEscape (fst e) @ ''='' @ QueryEscape (snd e)"

fun join_amp :: "string list \<Rightarrow> string" where
  "join_amp [] = []"
| "join_amp [s] = s"
| "join_amp (s # t # ss) = s @ ''&'' @ join_amp (t # ss)"

definition Values_Encode :: "Values \<Rightarrow> string" where
  "Values_Encode v = join_amp (map write_pair (Values_entries v))"

section \<open>The query encoder\<close>

text \<open>
  The type \<^verbatim>\<open>Address\<close>, its method \<^verbatim>\<open>String\<close> and the constant \<^verbatim>\<open>NullAddress\<close> are
  declared in a file of the package that is not among the sources. The encoder only
  converts an address with \<^verbatim>\<open>String()\<close> and compares it with \<^verbatim>\<open>NullAddress\<close>, so the
  address type is a type parameter \<open>'a\<close> here and the two others are parameters
  \<open>String\<close> and \<open>NullAddress\<close> of every encoder.

  \<^verbatim>\<open>TokenIDs\<close> is a \<^verbatim>\<open>[]int32\<close>; a nil slice and an empty one are both the empty list
  (the source tests \<^verbatim>\<open>len\<close> besides nil). \<^verbatim>\<open>Cursor\<close>, \<^verbatim>\<open>Limit\<close> and \<^verbatim>\<open>IncludeOrders\<close> are
  pointers: \<open>None\<close> is nil. Go's \<^verbatim>\<open>int\<close> is 32 or 64 bits wide by platform; the encoder
  does no arithmetic on it, only a comparison with 0 and the decimal rendering, so it
  is an \<^typ>\<open>int\<close> here.
\<close>

record 'a GetAssetsParams =
  Owner :: 'a
  TokenIDs :: "32 word list"
  Collection :: string
  CollectionSlug :: string
  CollectionEditor :: string
  OrderDirection :: string
  AssetContractAddress :: 'a
  AssetContractAddresses :: "'a list"
  Cursor :: "int option"
  Limit :: "int option"
  IncludeOrders :: "bool option"

text \<open>The loop over \<^verbatim>\<open>p.TokenIDs\<close>: one \<^verbatim>\<open>q.Add\<close> per element, from index 0 upwards.\<close>

primrec add_token_ids :: "32 word list \<Rightarrow> Values \<Rightarrow> Values" where
  "add_token_ids [] q = q"
| "add_token_ids (t # ts) q = add_token_ids ts (Values_Add ''token_ids'' (Sprintf_d (sint t)) q)"

text \<open>The loop over \<^verbatim>\<open>p.AssetContractAddresses\<close> of opensea-client.go.\<close>

primrec add_contract_addresses :: "('a \<Rightarrow> string) \<Rightarrow> 'a \<Rightarrow> 'a list \<Rightarrow> Values \<Rightarrow> Values" where
  "add_contract_addresses String NullAddress [] q = q"
| "add_contract_addresses String NullAddress (a # as) q =
     add_contract_addresses String NullAddress as
       (if String a \<noteq> [] \<and> a \<noteq> NullAddress
        then Values_Add ''asset_contract_addresses'' (String a) q else q)"

text \<open>
  \<^verbatim>\<open>GetAssetsParams.Encode\<close> of opensea-client.go, up to the call of \<^verbatim>\<open>q.Encode()\<close>: every
  line of the let is one statement of the source, in the source's order.
\<close>

definition Encode_Values :: "('a \<Rightarrow> string) \<Rightarrow> 'a \<Rightarrow> 'a GetAssetsParams \<Rightarrow> Values" where
  "Encode_Values String NullAddress p =
    (let q = [];
         q = (if String (Owner p) \<noteq> [] \<and> Owner p \<noteq> NullAddress
              then Values_Set ''owner'' (String (Owner p)) q else q);
         q = (if TokenIDs p \<noteq> [] then add_token_ids (TokenIDs p) q else q);
         q = (if Collection p \<noteq> [] then Values_Set ''collection'' (Collection p) q else q);
         q = (if CollectionSlug p \<noteq> []
              then Values_Set ''collection_slug'' (Collection p) q else q);
         q = (if CollectionEditor p \<noteq> []
              then Values_Set ''collection_editor'' (Collection p) q else q);
         q = (if OrderDirection p \<noteq> []
              then Values_Set ''order_direction'' (OrderDirection p) q else q);
         q = (if String (AssetContractAddress p) \<noteq> [] \<and> AssetContractAddress p \<noteq> NullAddress
              then Values_Set ''asset_contract_address'' (String (AssetContractAddress p)) q
              else q);
         q = Values_Del ''asset_contract_addresses'' q;
         q = (if AssetContractAddresses p \<noteq> []
              then add_contract_addresses String NullAddress (AssetContractAddresses p) q
              else q);
         q = (case Cursor p of None \<Rightarrow> q
              | Some c \<Rightarrow> if c > 0 then Values_Set ''cursor'' (Sprintf_d c) q else q);
         q = (case Limit p of None \<Rightarrow> q
              | Some l \<Rightarrow> if l > 0 then Values_Set ''limit'' (Sprintf_d l) q else q);
         q = (case IncludeOrders p of None \<Rightarrow> q
              | Some b \<Rightarrow>
                 (case ParseBool (Sprintf_v b) of
                    None \<Rightarrow> Values_Set ''include_orders'' (FormatBool False) q
                  | Some includeOrders \<Rightarrow> q))
     in q)"

definition Encode :: "('a \<Rightarrow> string) \<Rightarrow> 'a \<Rightarrow> 'a GetAssetsParams \<Rightarrow> string" where
  "Encode String NullAddress p = Values_Encode (Encode_Values String NullAddress p)"

subsection \<open>The two other revisions of the encoder\<close>

text \<open>
  The two other source files, unnamed/part_000 and unnamed/part_001, are two more
  revisions of opensea-client.go. Their parameter record has other fields (a suffix 0
  tells them from the ones above):
  \<^verbatim>\<open>Limit\<close> and \<^verbatim>\<open>Offset\<close> are plain \<^verbatim>\<open>int\<close>s and there is no \<^verbatim>\<open>IncludeOrders\<close>.
\<close>

record 'a GetAssetsParams0 =
  Owner0 :: 'a
  TokenIDs0 :: "32 word list"
  AssetContractAddress0 :: 'a
  AssetContractAddresses0 :: "'a list"
  OrderBy0 :: string
  OrderDirection0 :: string
  Offset0 :: int
  Limit0 :: int
  Collection0 :: string

text \<open>
  The revision without struct tags (unnamed/part_001). Its loop over the contract addresses
  formats the address string with the verb \<^verbatim>\<open>%d\<close>, and its guard of \<^verbatim>\<open>owner\<close> reads
  \<^verbatim>\<open>p.AssetContractAddress\<close>.
\<close>

primrec add_contract_addresses_part_001 ::
  "('a \<Rightarrow> string) \<Rightarrow> 'a \<Rightarrow> 'a list \<Rightarrow> Values \<Rightarrow> Values" where
  "add_contract_addresses_part_001 String NullAddress [] q = q"
| "add_contract_addresses_part_001 String NullAddress (a # as) q =
     add_contract_addresses_part_001 String NullAddress as
       (if a \<noteq> NullAddress
        then Values_Add ''asset_contract_addresses'' (Sprintf_d_string (String a)) q else q)"

definition Encode_Values_part_001 ::
  "('a \<Rightarrow> string) \<Rightarrow> 'a \<Rightarrow> 'a GetAssetsParams0 \<Rightarrow> Values" where
  "Encode_Values_part_001 String NullAddress p =
    (let q = [];
         q = (if AssetContractAddress0 p \<noteq> NullAddress
              then Values_Set ''owner'' (String (Owner0 p)) q else q);
         q = (if TokenIDs0 p \<noteq> [] then add_token_ids (TokenIDs0 p) q else q);
         q = (if AssetContractAddress0 p \<noteq> NullAddress
              then Values_Set ''asset_contract_address'' (String (AssetContractAddress0 p)) q
              else q);
         q = Values_Del ''asset_contract_addresses'' q;
         q = (if AssetContractAddresses0 p \<noteq> []
              then add_contract_addresses_part_001 String NullAddress (AssetContractAddresses0 p) q
              else q);
         q = (if OrderBy0 p \<noteq> [] then Values_Set ''order_by'' (OrderBy0 p) q else q);
         q = (if OrderDirection0 p \<noteq> []
              then Values_Set ''order_direction'' (OrderDirection0 p) q else q);
         q = (if Collection0 p \<noteq> [] then Values_Set ''collection'' (Collection0 p) q else q);
         q = Values_Set ''limit'' (Sprintf_d (Limit0 p)) q;
         q = Values_Set ''offset'' (Sprintf_d (Offset0 p)) q
     in q)"

definition Encode_part_001 :: "('a \<Rightarrow> string) \<Rightarrow> 'a \<Rightarrow> 'a GetAssetsParams0 \<Rightarrow> string" where
  "Encode_part_001 String NullAddress p =
     Values_Encode (Encode_Values_part_001 String NullAddress p)"

text \<open>
  The revision with struct tags and without pointers (unnamed/part_000). It guards the
  addresses as opensea-client.go does, and always sets \<^verbatim>\<open>limit\<close>, \<^verbatim>\<open>offset\<close> and
  \<^verbatim>\<open>include_orders\<close>.
\<close>

definition Encode_Values_part_000 ::
  "('a \<Rightarrow> string) \<Rightarrow> 'a \<Rightarrow> 'a GetAssetsParams0 \<Rightarrow> Values" where
  "Encode_Values_part_000 String NullAddress p =
    (let q = [];
         q = (if String (Owner0 p) \<noteq> [] \<and> Owner0 p \<noteq> NullAddress
              then Values_Set ''owner'' (String (Owner0 p)) q else q);
         q = (if TokenIDs0 p \<noteq> [] then add_token_ids (TokenIDs0 p) q else q);
         q = (if String (AssetContractAddress0 p) \<noteq> [] \<and> AssetContractAddress0 p \<noteq> NullAddress
              then Values_Set ''asset_contract_address'' (String (AssetContractAddress0 p)) q
              else q);
         q = Values_Del ''asset_contract_addresses'' q;
         q = (if AssetContractAddresses0 p \<noteq> []
              then add_contract_addresses String NullAddress (AssetContractAddresses0 p) q
              else q);
         q = (if OrderBy0 p \<noteq> [] then Values_Set ''order_by'' (OrderBy0 p) q else q);
         q = (if OrderDirection0 p \<noteq> []
              then Values_Set ''order_direction'' (OrderDirection0 p) q else q);
         q = (if Collection0 p \<noteq> [] then Values_Set ''collection'' (Collection0 p) q else q);
         q = Values_Set ''limit'' (Sprintf_d (Limit0 p)) q;
         q = Values_Set ''offset'' (Sprintf_d (Offset0 p)) q;
         q = Values_Set ''include_orders'' ''false'' q
     in q)"

definition Encode_part_000 :: "('a \<Rightarrow> string) \<Rightarrow> 'a \<Rightarrow> 'a GetAssetsParams0 \<Rightarrow> string" where
  "Encode_part_000 String NullAddress p =
     Values_Encode (Encode_Values_part_000 String NullAddress p)"

subsection \<open>The statements of the encoders, one at a time\<close>

text \<open>
  Every statement of the three encoders has one of the forms below. The encoders are
  compositions of them (lemmas \<open>Encode_Values_steps\<close>, \<open>Encode_Values_part_001_steps\<close>
  and \<open>Encode_Values_part_000_steps\<close>), which is how their results are computed key by key.
\<close>

definition set_if :: "bool \<Rightarrow> string \<Rightarrow> string \<Rightarrow> Values \<Rightarrow> Values" where
  "set_if c key val q = (if c then Values_Set key val q else q)"

definition set_positive :: "string \<Rightarrow> int option \<Rightarrow> Values \<Rightarrow> Values" where
  "set_positive key x q =
     (case x of None \<Rightarrow> q
      | Some c \<Rightarrow> if c > 0 then Values_Set key (Sprintf_d c) q else q)"

definition set_include_orders :: "bool option \<Rightarrow> Values \<Rightarrow> Values" where
  "set_include_orders x q =
     (case x of None \<Rightarrow> q
      | Some b \<Rightarrow>
         (case ParseBool (Sprintf_v b) of
            None \<Rightarrow> Values_Set ''include_orders'' (FormatBool False) q
          | Some includeOrders \<Rightarrow> q))"

definition token_ids_if :: "32 word list \<Rightarrow> Values \<Rightarrow> Values" where
  "token_ids_if ts q = (if ts \<noteq> [] then add_token_ids ts q else q)"

definition contract_addresses_if :: "('a \<Rightarrow> string) \<Rightarrow> 'a \<Rightarrow> 'a list \<Rightarrow> Values \<Rightarrow> Values" where
  "contract_addresses_if String NullAddress as q =
     (if as \<noteq> [] then add_contract_addresses String NullAddress as q else q)"

definition contract_addresses_part_001_if ::
  "('a \<Rightarrow> string) \<Rightarrow> 'a \<Rightarrow> 'a list \<Rightarrow> Values \<Rightarrow> Values" where
  "contract_addresses_part_001_if String NullAddress as q =
     (if as \<noteq> [] then add_contract_addresses_part_001 String NullAddress as q else q)"

subsection \<open>Reading a query string\<close>

text \<open>
  What a query string contains is what \<^verbatim>\<open>url.ParseQuery\<close> reads from it: the string is
  cut at every \<open>&\<close>, an empty piece is skipped, a piece with a semicolon or with a
  malformed escape is dropped, every other piece is cut at its first \<open>=\<close> and both sides
  are unescaped. \<open>ParseQuery\<close> gives the pairs in the order of the string, and
  \<open>query_values\<close> the values of one key, which is \<^verbatim>\<open>ParseQuery(query)[key]\<close>.
\<close>

definition ishex :: "char \<Rightarrow> bool" where
  "ishex c = ((CHR ''0'' \<le> c \<and> c \<le> CHR ''9'') \<or> (CHR ''a'' \<le> c \<and> c \<le> CHR ''f'')
      \<or> (CHR ''A'' \<le> c \<and> c \<le> CHR ''F''))"

definition unhex :: "char \<Rightarrow> nat" where
  "unhex c =
     (if CHR ''0'' \<le> c \<and> c \<le> CHR ''9'' then of_char c - 48
      else if CHR ''a'' \<le> c \<and> c \<le> CHR ''f'' then of_char c - 97 + 10
      else if CHR ''A'' \<le> c \<and> c \<le> CHR ''F'' then of_char c - 65 + 10
      else 0)"

fun QueryUnescape :: "string \<Rightarrow> string option" where
  "QueryUnescape [] = Some []"
| "QueryUnescape (c # cs) =
     (if c = CHR ''%'' then
        (case cs of
           h1 # h2 # rest \<Rightarrow>
             if ishex h1 \<and> ishex h2
             then map_option ((#) (char_of (unhex h1 * 16 + unhex h2))) (QueryUnescape rest)
             else None
         | _ \<Rightarrow> None)
      else if c = CHR ''+'' then map_option ((#) CHR '' '') (QueryUnescape cs)
      else map_option ((#) c) (QueryUnescape cs))"

fun split_on :: "char \<Rightarrow> string \<Rightarrow> string list" where
  "split_on c [] = [[]]"
| "split_on c (x # xs) =
     (if x = c then [] # split_on c xs
      else (case split_on c xs of [] \<Rightarrow> [[x]] | s # ss \<Rightarrow> (x # s) # ss))"

definition Cut :: "char \<Rightarrow> string \<Rightarrow> string \<times> string" where
  "Cut c s = (takeWhile (\<lambda>x. x \<noteq> c) s, drop 1 (dropWhile (\<lambda>x. x \<noteq> c) s))"

definition parse_pair :: "string \<Rightarrow> (string \<times> string) option" where
  "parse_pair seg =
     (if CHR '';'' \<in> set seg then None
      else case Cut CHR ''='' seg of
        (k, v) \<Rightarrow>
          (case QueryUnescape k of
             None \<Rightarrow> None
           | Some key \<Rightarrow>
               (case QueryUnescape v of None \<Rightarrow> None | Some val \<Rightarrow> Some (key, val))))"

definition ParseQuery :: "string \<Rightarrow> (string \<times> string) list" where
  "ParseQuery query =
     List.map_filter parse_pair (filter (\<lambda>seg. seg \<noteq> []) (split_on CHR ''&'' query))"

definition query_values :: "string \<Rightarrow> string \<Rightarrow> string list" where
  "query_values query key = map snd (filter (\<lambda>e. fst e = key) (ParseQuery query))"

definition query_keys :: "string \<Rightarrow> string list" where
  "query_keys query = map fst (ParseQuery query)"

text \<open>The bytes that \<open>QueryEscape\<close> can write.\<close>

definition safe_char :: "char \<Rightarrow> bool" where
  "safe_char c = (\<not> shouldEscape c \<or> c = CHR ''+'' \<or> c = CHR ''%'')"

subsection \<open>Decimal numerals\<close>

text \<open>
  A string is a base-10 integer without anomalies when it is a non-empty sequence of
  digits after an optional minus sign, and a leading digit 0 only occurs in the string
  \<open>0\<close> itself: no plus sign, no \<open>-0\<close>, no \<open>007\<close>. \<open>int_of_decimal\<close> is the number it denotes.
\<close>

definition is_digit :: "char \<Rightarrow> bool" where
  "is_digit c = (c \<in> set ''0123456789'')"

definition digit_val :: "char \<Rightarrow> nat" where
  "digit_val c = of_char c - 48"

definition nat_of_digits :: "string \<Rightarrow> nat" where
  "nat_of_digits ds = foldl (\<lambda>a c. 10 * a + digit_val c) 0 ds"

definition int_of_decimal :: "string \<Rightarrow> int" where
  "int_of_decimal s =
     (case s of
        [] \<Rightarrow> 0
      | c # cs \<Rightarrow> if c = CHR ''-'' then - int (nat_of_digits cs) else int (nat_of_digits s))"

definition canonical_decimal :: "string \<Rightarrow> bool" where
  "canonical_decimal s =
     (let ds = (case s of [] \<Rightarrow> [] | c # cs \<Rightarrow> if c = CHR ''-'' then cs else s)
      in ds \<noteq> [] \<and> list_all is_digit ds \<and> (if hd ds = CHR ''0'' then s = ''0'' else True))"

subsection \<open>Addresses as strings\<close>

text \<open>
  Modelled from the spec: the type \<^verbatim>\<open>Address\<close>, its method \<^verbatim>\<open>String\<close> and the constant
  \<^verbatim>\<open>NullAddress\<close>, which the sources use and do not declare. The spec describes an address
  as a normalised blockchain address value with a null sentinel that marks an absent
  address, and an address is written to the query string as a string. Here an address
  is that string, and the sentinel is the address of forty zero digits. The theorems on
  the encoders hold for every address type; these two constants are for the examples.
\<close>

definition String_hex :: "string \<Rightarrow> string" where
  "String_hex a = a"

definition NullAddress_hex :: string where
  "NullAddress_hex = ''0x0000000000000000000000000000000000000000''"

text \<open>The parameter records with no field set.\<close>

definition no_params :: "string GetAssetsParams" where
  "no_params =
     \<lparr>Owner = [], TokenIDs = [], Collection = [], CollectionSlug = [], CollectionEditor = [],
      OrderDirection = [], AssetContractAddress = [], AssetContractAddresses = [],
      Cursor = None, Limit = None, IncludeOrders = None\<rparr>"

definition no_params0 :: "string GetAssetsParams0" where
  "no_params0 =
     \<lparr>Owner0 = [], TokenIDs0 = [], AssetContractAddress0 = [], AssetContractAddresses0 = [],
      OrderBy0 = [], OrderDirection0 = [], Offset0 = 0, Limit0 = 0, Collection0 = []\<rparr>"

section \<open>The client\<close>

text \<open>
  An \<^verbatim>\<open>error\<close> of the client is one of three: an error value made by the standard library
  (\<^verbatim>\<open>net/http\<close>, \<^verbatim>\<open>io\<close>, \<^verbatim>\<open>encoding/json\<close>), which carries its message; the decoded
  \<^verbatim>\<open>*errorResponse\<close>; or the value made by \<^verbatim>\<open>fmt.Errorf\<close>. \<open>Error\<close> is the method
  \<^verbatim>\<open>Error()\<close>.
\<close>

record errorResponse =
  Success :: bool

datatype error = LibraryError string | ErrorResponse errorResponse | Errorf string

fun Error :: "error \<Rightarrow> string" where
  "Error (LibraryError msg) = msg"
| "Error (ErrorResponse e) = ''Not success''"
| "Error (Errorf msg) = msg"

text \<open>
  A request is its method, its URL and the headers added to it, in the order of the
  calls of \<^verbatim>\<open>Header.Add\<close>. Of a response the client reads the status code and the body;
  \<open>Body\<close> is what \<^verbatim>\<open>ioutil.ReadAll(resp.Body)\<close> returns, an error or the bytes.
\<close>

record Request =
  Method :: string
  URL :: string
  Header :: "(string \<times> string) list"

record Response =
  StatusCode :: int
  Body :: "error + string"

text \<open>The field \<^verbatim>\<open>httpClient\<close> is the function \<^verbatim>\<open>httpClient.Do\<close>: the transport.\<close>

record Opensea =
  API :: string
  APIKey :: string
  httpClient :: "Request \<Rightarrow> error + Response"

text \<open>
  What the standard library does for the client, as parameters: the error of
  \<^verbatim>\<open>http.NewRequestWithContext\<close> for a URL (and the caller's context), if any, and
  \<^verbatim>\<open>json.Unmarshal\<close> at the three target types. \<^verbatim>\<open>json.Unmarshal(body, target)\<close> writes into
  \<open>target\<close> and returns an error or nil: here it maps the body and the target's value
  before the call to the target's value after the call and the error. The types
  \<^verbatim>\<open>AssetResponse\<close> and \<^verbatim>\<open>Asset\<close> are declared outside the sources; they are the type
  parameters \<open>'r\<close> and \<open>'s\<close>, and \<^verbatim>\<open>new(AssetResponse)\<close> and \<^verbatim>\<open>new(Asset)\<close> are their zero
  values.
\<close>

record ('r, 's) stdlib =
  request_error :: "string \<Rightarrow> error option"
  Unmarshal_errorResponse :: "string \<Rightarrow> errorResponse \<Rightarrow> errorResponse \<times> error option"
  Unmarshal_AssetResponse :: "string \<Rightarrow> 'r \<Rightarrow> 'r \<times> error option"
  Unmarshal_Asset :: "string \<Rightarrow> 's \<Rightarrow> 's \<times> error option"
  new_AssetResponse :: 'r
  new_Asset :: 's

definition NewRequestWithContext ::
  "('r, 's) stdlib \<Rightarrow> string \<Rightarrow> string \<Rightarrow> error + Request" where
  "NewRequestWithContext L method url =
     (case request_error L url of
        Some err \<Rightarrow> Inl err
      | None \<Rightarrow> Inr \<lparr>Method = method, URL = url, Header = []\<rparr>)"

definition Header_Add :: "string \<Rightarrow> string \<Rightarrow> Request \<Rightarrow> Request" where
  "Header_Add key val req = req\<lparr>Header := Header req @ [(key, val)]\<rparr>"

text \<open>
  \<^verbatim>\<open>Opensea.getURL\<close> of opensea-client.go. The result \<^verbatim>\<open>([]byte, error)\<close> is a sum: the
  source returns either nil and an error, or the body and nil. The receiver \<^verbatim>\<open>o\<close> is
  \<open>os\<close> here. The lines the source prints to standard output are left out.
\<close>

definition getURL :: "('r, 's) stdlib \<Rightarrow> Opensea \<Rightarrow> string \<Rightarrow> error + string" where
  "getURL L os url =
     (case NewRequestWithContext L ''GET'' url of
        Inl err \<Rightarrow> Inl err
      | Inr req \<Rightarrow>
          (let req = Header_Add ''X-API-KEY'' (APIKey os) req;
               req = Header_Add ''Accept'' ''application/json'' req
           in case httpClient os req of
                Inl err \<Rightarrow> Inl err
              | Inr resp \<Rightarrow>
                  (case Body resp of
                     Inl err \<Rightarrow> Inl err
                   | Inr body \<Rightarrow>
                       if StatusCode resp \<noteq> 200 then
                         (case Unmarshal_errorResponse L body \<lparr>Success = False\<rparr> of
                            (e, Some err) \<Rightarrow> Inl err
                          | (e, None) \<Rightarrow>
                              if \<not> Success e then Inl (ErrorResponse e)
                              else Inl (Errorf (''backend returns status ''
                                     @ Sprintf_d (StatusCode resp) @ '' msg: '' @ body)))
                       else Inr body)))"

definition GetPath :: "('r, 's) stdlib \<Rightarrow> Opensea \<Rightarrow> string \<Rightarrow> error + string" where
  "GetPath L os path = getURL L os (API os @ path)"

text \<open>
  \<^verbatim>\<open>GetAssetsWithContext\<close> and \<^verbatim>\<open>GetSingleAssetWithContext\<close> return a pointer and an error,
  and both can be non-nil at once: the result is a pair of options, \<open>None\<close> for nil.
\<close>

definition GetAssetsWithContext ::
  "('r, 's) stdlib \<Rightarrow> ('a \<Rightarrow> string) \<Rightarrow> 'a \<Rightarrow> Opensea \<Rightarrow> 'a GetAssetsParams
     \<Rightarrow> 'r option \<times> error option" where
  "GetAssetsWithContext L String NullAddress os params =
     (let path = ''/api/v1/assets/?'' @ Encode String NullAddress params
      in case GetPath L os path of
           Inl err \<Rightarrow> (None, Some err)
         | Inr body \<Rightarrow>
             (case Unmarshal_AssetResponse L body (new_AssetResponse L) of
                (ret, err) \<Rightarrow> (Some ret, err)))"

text \<open>
  \<^verbatim>\<open>(*big.Int).String()\<close>: the decimal digits of the number, and \<^verbatim>\<open><nil>\<close> for a nil pointer.
\<close>

definition big_Int_String :: "int option \<Rightarrow> string" where
  "big_Int_String x = (case x of None \<Rightarrow> ''<nil>'' | Some i \<Rightarrow> Sprintf_d i)"

definition single_asset_path :: "string \<Rightarrow> int option \<Rightarrow> string" where
  "single_asset_path assetContractAddress tokenID =
     ''/api/v1/asset/'' @ assetContractAddress @ ''/'' @ big_Int_String tokenID"

definition GetSingleAssetWithContext ::
  "('r, 's) stdlib \<Rightarrow> Opensea \<Rightarrow> string \<Rightarrow> int option \<Rightarrow> 's option \<times> error option" where
  "GetSingleAssetWithContext L os assetContractAddress tokenID =
     (let path = single_asset_path assetContractAddress tokenID
      in case GetPath L os path of
           Inl err \<Rightarrow> (None, Some err)
         | Inr body \<Rightarrow>
             (case Unmarshal_Asset L body (new_Asset L) of
                (ret, err) \<Rightarrow> (Some ret, err)))"

subsection \<open>Responses, messages and a mock transport\<close>

text \<open>The request that \<open>getURL\<close> sends for a URL.\<close>

definition get_request :: "Opensea \<Rightarrow> string \<Rightarrow> Request" where
  "get_request os url =
     \<lparr>Method = ''GET'', URL = url,
      Header = [(''X-API-KEY'', APIKey os), (''Accept'', ''application/json'')]\<rparr>"

text \<open>
  The transport answers the request for \<open>url\<close> with an HTTP response of this status code
  whose body reads as \<open>body\<close>.
\<close>

definition responds :: "('r, 's) stdlib \<Rightarrow> Opensea \<Rightarrow> string \<Rightarrow> int \<Rightarrow> string \<Rightarrow> bool" where
  "responds L os url status body =
     (request_error L url = None
      \<and> httpClient os (get_request os url) = Inr \<lparr>StatusCode = status, Body = Inr body\<rparr>)"

definition assets_url :: "('a \<Rightarrow> string) \<Rightarrow> 'a \<Rightarrow> Opensea \<Rightarrow> 'a GetAssetsParams \<Rightarrow> string" where
  "assets_url String NullAddress os params =
     API os @ ''/api/v1/assets/?'' @ Encode String NullAddress params"

definition single_asset_url :: "Opensea \<Rightarrow> string \<Rightarrow> int option \<Rightarrow> string" where
  "single_asset_url os assetContractAddress tokenID =
     API os @ single_asset_path assetContractAddress tokenID"

definition is_2xx :: "int \<Rightarrow> bool" where
  "is_2xx status = (200 \<le> status \<and> status < 300)"

text \<open>\<^verbatim>\<open>strings.Contains\<close>.\<close>

fun starts_with :: "string \<Rightarrow> string \<Rightarrow> bool" where
  "starts_with s [] = True"
| "starts_with [] (c # cs) = False"
| "starts_with (x # xs) (c # cs) = (x = c \<and> starts_with xs cs)"

fun contains :: "string \<Rightarrow> string \<Rightarrow> bool" where
  "contains [] sub = (sub = [])"
| "contains (x # xs) sub = (starts_with (x # xs) sub \<or> contains xs sub)"

text \<open>
  A mock transport that answers every request with one status code and one body, and
  a client on it.
\<close>

definition mock_transport :: "int \<Rightarrow> string \<Rightarrow> Request \<Rightarrow> error + Response" where
  "mock_transport status body req = Inr \<lparr>StatusCode = status, Body = Inr body\<rparr>"

definition mock_client :: "int \<Rightarrow> string \<Rightarrow> Opensea" where
  "mock_client status body =
     \<lparr>API = ''https://api.opensea.io'', APIKey = ''key'',
      httpClient = mock_transport status body\<rparr>"

text \<open>A transport that answers 200 with the URL of the request as the body.\<close>

definition echo_transport :: "Request \<Rightarrow> error + Response" where
  "echo_transport req = Inr \<lparr>StatusCode = 200, Body = Inr (URL req)\<rparr>"

definition echo_client :: Opensea where
  "echo_client =
     \<lparr>API = ''https://api.opensea.io'', APIKey = ''key'', httpClient = echo_transport\<rparr>"

text \<open>
  The results of \<^verbatim>\<open>json.Unmarshal\<close> on the bodies of the examples. The body \<^verbatim>\<open><html>\<close> is not
  JSON: the decoder leaves the target as it is and returns its syntax error. The two
  objects are JSON: into an \<^verbatim>\<open>errorResponse\<close>, \<^verbatim>\<open>{"success": false}\<close> decodes with the flag
  false, and so does \<^verbatim>\<open>{"assets": []}\<close>, which has no such field; \<^verbatim>\<open>{"success": true}\<close>
  decodes with the flag true. Into the other two targets (of type \<^typ>\<open>unit\<close> here, there
  is nothing to fill in) the objects decode without an error. No other body occurs in
  the examples; the stubs answer it as they answer \<^verbatim>\<open><html>\<close>.
\<close>

definition json_objects :: "string list" where
  "json_objects = [''{\"success\": false}'', ''{\"success\": true}'', ''{\"assets\": []}'']"

definition syntax_error :: error where
  "syntax_error = LibraryError ''invalid character '<' looking for beginning of value''"

definition stub_Unmarshal_errorResponse ::
  "string \<Rightarrow> errorResponse \<Rightarrow> errorResponse \<times> error option" where
  "stub_Unmarshal_errorResponse body e =
     (if body = ''{\"success\": true}'' then (e\<lparr>Success := True\<rparr>, None)
      else if body = ''{\"success\": false}'' then (e\<lparr>Success := False\<rparr>, None)
      else if body = ''{\"assets\": []}'' then (e, None)
      else (e, Some syntax_error))"

definition stub_Unmarshal :: "string \<Rightarrow> unit \<Rightarrow> unit \<times> error option" where
  "stub_Unmarshal body r = (if body \<in> set json_objects then (r, None) else (r, Some syntax_error))"

definition stub_stdlib :: "(unit, unit) stdlib" where
  "stub_stdlib =
     \<lparr>request_error = (\<lambda>url. None),
      Unmarshal_errorResponse = stub_Unmarshal_errorResponse,
      Unmarshal_AssetResponse = stub_Unmarshal,
      Unmarshal_Asset = stub_Unmarshal,
      new_AssetResponse = (),
      new_Asset = ()\<rparr>"

section \<open>Properties of escaping and reading back\<close>

lemma upperhex_nth: "n < 16 \<Longrightarrow> ishex (upperhex ! n) \<and> unhex (upperhex ! n) = n"
proof -
  assume "n < 16"
  then have "n = 0 \<or> n = 1 \<or> n = 2 \<or> n = 3 \<or> n = 4 \<or> n = 5 \<or> n = 6 \<or> n = 7
    \<or> n = 8 \<or> n = 9 \<or> n = 10 \<or> n = 11 \<or> n = 12 \<or> n = 13 \<or> n = 14 \<or> n = 15"
    by presburger
  then show ?thesis
    by (elim disjE) (simp_all add: upperhex_def ishex_def unhex_def)
qed

lemma of_char_less_256: "(of_char (c::char) :: nat) < 256"
  by (cases c) (simp add: of_char_def)

lemma high_nibble: "(of_char (c::char) :: nat) div 16 < 16"
  using of_char_less_256[of c] by presburger

lemma low_nibble: "(of_char (c::char) :: nat) mod 16 < 16"
  by simp

lemma hex_roundtrip:
  "char_of (unhex (upperhex ! (of_char c div 16)) * 16 + unhex (upperhex ! (of_char c mod 16))) = c"
  using upperhex_nth[OF high_nibble[of c]] upperhex_nth[OF low_nibble[of c]] by simp

lemma ishex_not_shouldEscape: "ishex c \<Longrightarrow> \<not> shouldEscape c"
  by (auto simp: ishex_def shouldEscape_def less_eq_char_def)

lemma escape_byte_safe: "x \<in> set (escape_byte c) \<Longrightarrow> safe_char x"
  using upperhex_nth[OF high_nibble[of c]] upperhex_nth[OF low_nibble[of c]]
  by (auto simp: escape_byte_def safe_char_def ishex_not_shouldEscape split: if_splits)

lemma QueryEscape_safe: "x \<in> set (QueryEscape s) \<Longrightarrow> safe_char x"
  by (auto simp: QueryEscape_def escape_byte_safe)

lemma safe_char_seps:
  "safe_char x \<Longrightarrow> x \<noteq> CHR ''&'' \<and> x \<noteq> CHR ''='' \<and> x \<noteq> CHR '';''"
  by (auto simp: safe_char_def shouldEscape_def)

lemma QueryEscape_no_sep:
  "CHR ''&'' \<notin> set (QueryEscape s)" "CHR ''='' \<notin> set (QueryEscape s)"
  "CHR '';'' \<notin> set (QueryEscape s)"
  using QueryEscape_safe safe_char_seps by blast+

lemma QueryUnescape_escape_byte:
  "QueryUnescape (escape_byte c @ rest) = map_option ((#) c) (QueryUnescape rest)"
proof -
  have p: "\<not> shouldEscape c \<Longrightarrow> c \<noteq> CHR ''%'' \<and> c \<noteq> CHR ''+''"
    by (auto simp: shouldEscape_def)
  show ?thesis
    using upperhex_nth[OF high_nibble[of c]] upperhex_nth[OF low_nibble[of c]] hex_roundtrip[of c] p
    by (auto simp: escape_byte_def)
qed

lemma QueryUnescape_QueryEscape: "QueryUnescape (QueryEscape s) = Some s"
  by (induction s) (simp_all add: QueryEscape_def QueryUnescape_escape_byte)

lemma split_on_no_sep: "c \<notin> set s \<Longrightarrow> split_on c s = [s]"
  by (induction s) auto

lemma split_on_append: "c \<notin> set s \<Longrightarrow> split_on c (s @ c # rest) = s # split_on c rest"
  by (induction s) auto

lemma split_on_join_amp:
  "segs \<noteq> [] \<Longrightarrow> list_all (\<lambda>s. CHR ''&'' \<notin> set s) segs
     \<Longrightarrow> split_on CHR ''&'' (join_amp segs) = segs"
  by (induction segs rule: join_amp.induct) (auto simp: split_on_no_sep split_on_append)

lemma segments_join_amp:
  assumes "list_all (\<lambda>s. s \<noteq> [] \<and> CHR ''&'' \<notin> set s) segs"
  shows "filter (\<lambda>seg. seg \<noteq> []) (split_on CHR ''&'' (join_amp segs)) = segs"
proof (cases segs)
  case Nil
  then show ?thesis by simp
next
  case (Cons a list)
  have 1: "list_all (\<lambda>s. CHR ''&'' \<notin> set s) segs"
    using assms by (simp add: list_all_iff)
  have 2: "filter (\<lambda>seg. seg \<noteq> []) segs = segs"
    using assms by (simp add: list_all_iff filter_id_conv)
  from Cons have "segs \<noteq> []" by simp
  then show ?thesis using split_on_join_amp[OF _ 1] 2 by simp
qed

lemma Cut_write_pair: "Cut CHR ''='' (write_pair e) = (QueryEscape (fst e), QueryEscape (snd e))"
proof -
  have k: "\<And>x. x \<in> set (QueryEscape (fst e)) \<Longrightarrow> x \<noteq> CHR ''=''"
    using QueryEscape_no_sep(2) by blast
  show ?thesis
    by (simp add: Cut_def write_pair_def takeWhile_append2[OF k] dropWhile_append2[OF k])
qed

lemma parse_pair_write_pair: "parse_pair (write_pair e) = Some e"
proof -
  have "CHR '';'' \<notin> set (write_pair e)"
    using QueryEscape_no_sep(3) by (simp add: write_pair_def)
  then show ?thesis
    by (simp add: parse_pair_def Cut_write_pair QueryUnescape_QueryEscape)
qed

lemma write_pair_segment: "write_pair e \<noteq> [] \<and> CHR ''&'' \<notin> set (write_pair e)"
  using QueryEscape_no_sep(1) by (simp add: write_pair_def)

lemma map_filter_parse_pair: "List.map_filter parse_pair (map write_pair es) = es"
  by (induction es) (simp_all add: List.map_filter_simps parse_pair_write_pair)

lemma ParseQuery_Values_Encode: "ParseQuery (Values_Encode v) = Values_entries v"
proof -
  have "list_all (\<lambda>s. s \<noteq> [] \<and> CHR ''&'' \<notin> set s) (map write_pair (Values_entries v))"
    by (simp add: list_all_iff write_pair_segment)
  then show ?thesis
    by (simp add: ParseQuery_def Values_Encode_def segments_join_amp map_filter_parse_pair)
qed

section \<open>Properties of Values\<close>

lemma Values_at_Nil: "Values_at [] k = []"
  by (simp add: Values_at_def)

lemma Values_at_Set:
  "Values_at (Values_Set k x v) k' = (if k' = k then [x] else Values_at v k')"
  by (simp add: Values_at_def Values_Set_def update_conv')

lemma Values_at_Add:
  "Values_at (Values_Add k x v) k' = (if k' = k then Values_at v k @ [x] else Values_at v k')"
  by (simp add: Values_at_def Values_Add_def update_conv')

lemma Values_at_Del:
  "Values_at (Values_Del k v) k' = (if k' = k then [] else Values_at v k')"
  by (simp add: Values_at_def Values_Del_def delete_conv')

lemma distinct_Values_Set: "distinct (map fst v) \<Longrightarrow> distinct (map fst (Values_Set k x v))"
  by (simp add: Values_Set_def distinct_update)

lemma distinct_Values_Add: "distinct (map fst v) \<Longrightarrow> distinct (map fst (Values_Add k x v))"
  by (simp add: Values_Add_def distinct_update)

lemma distinct_Values_Del: "distinct (map fst v) \<Longrightarrow> distinct (map fst (Values_Del k v))"
  by (simp add: Values_Del_def distinct_delete)

lemma concat_single_key:
  "distinct ks \<Longrightarrow> concat (map (\<lambda>k'. if k' = k then xs else []) ks) = (if k \<in> set ks then xs else [])"
  by (induction ks) auto

lemma Values_at_not_key: "k \<notin> fst ` set v \<Longrightarrow> Values_at v k = []"
  by (simp add: Values_at_def map_of_eq_None_iff[THEN iffD2])

lemma Values_entries_key:
  assumes "distinct (map fst v)"
  shows "map snd (filter (\<lambda>e. fst e = k) (Values_entries v)) = Values_at v k"
proof -
  have f: "\<And>k'. map snd (filter (\<lambda>e. fst e = k) (map (Pair k') (Values_at v k')))
      = (if k' = k then Values_at v k else [])"
    by (simp add: filter_map comp_def)
  have "map snd (filter (\<lambda>e. fst e = k) (Values_entries v))
      = concat (map (\<lambda>k'. if k' = k then Values_at v k else []) (sort (map fst v)))"
    unfolding Values_entries_def
    by (simp add: filter_concat map_concat comp_def f)
  also have "\<dots> = (if k \<in> set (sort (map fst v)) then Values_at v k else [])"
    using assms by (intro concat_single_key) simp
  also have "\<dots> = Values_at v k"
    using Values_at_not_key[of k v] by simp
  finally show ?thesis .
qed

lemma query_values_Values_Encode:
  "distinct (map fst v) \<Longrightarrow> query_values (Values_Encode v) k = Values_at v k"
  by (simp add: query_values_def ParseQuery_Values_Encode Values_entries_key)

lemma in_query_keys: "k \<in> set (query_keys query) \<longleftrightarrow> query_values query k \<noteq> []"
  by (auto simp: query_keys_def query_values_def filter_empty_conv)

section \<open>The encoders, statement by statement\<close>

lemma Values_at_add_token_ids:
  "Values_at (add_token_ids ts q) k =
     (if k = ''token_ids'' then Values_at q k @ map (\<lambda>t. Sprintf_d (sint t)) ts
      else Values_at q k)"
  by (induction ts arbitrary: q) (simp_all add: Values_at_Add)

lemma Values_at_add_contract_addresses:
  "Values_at (add_contract_addresses String NullAddress as q) k =
     (if k = ''asset_contract_addresses''
      then Values_at q k @ map String (filter (\<lambda>a. String a \<noteq> [] \<and> a \<noteq> NullAddress) as)
      else Values_at q k)"
  by (induction as arbitrary: q) (simp_all add: Values_at_Add)

lemma Values_at_add_contract_addresses_part_001:
  "Values_at (add_contract_addresses_part_001 String NullAddress as q) k =
     (if k = ''asset_contract_addresses''
      then Values_at q k
        @ map (\<lambda>a. Sprintf_d_string (String a)) (filter (\<lambda>a. a \<noteq> NullAddress) as)
      else Values_at q k)"
  by (induction as arbitrary: q) (simp_all add: Values_at_Add)

lemma distinct_add_token_ids:
  "distinct (map fst q) \<Longrightarrow> distinct (map fst (add_token_ids ts q))"
  by (induction ts arbitrary: q) (simp_all add: distinct_Values_Add)

lemma distinct_add_contract_addresses:
  "distinct (map fst q) \<Longrightarrow> distinct (map fst (add_contract_addresses String NullAddress as q))"
  by (induction as arbitrary: q) (simp_all add: distinct_Values_Add)

lemma distinct_add_contract_addresses_part_001:
  "distinct (map fst q)
     \<Longrightarrow> distinct (map fst (add_contract_addresses_part_001 String NullAddress as q))"
  by (induction as arbitrary: q) (simp_all add: distinct_Values_Add)

lemma Values_at_set_if:
  "Values_at (set_if c key val q) k = (if c \<and> k = key then [val] else Values_at q k)"
  by (simp add: set_if_def Values_at_Set)

lemma Values_at_set_positive:
  "Values_at (set_positive key x q) k =
     (if k = key \<and> (\<exists>c. x = Some c \<and> 0 < c) then [Sprintf_d (the x)] else Values_at q k)"
  by (auto simp: set_positive_def Values_at_Set split: option.split)

lemma ParseBool_Sprintf_v: "ParseBool (Sprintf_v b) = Some b"
  by (simp add: ParseBool_def Sprintf_v_def)

lemma set_include_orders_id: "set_include_orders x q = q"
  by (simp add: set_include_orders_def ParseBool_Sprintf_v split: option.split)

lemma Values_at_token_ids_if:
  "Values_at (token_ids_if ts q) k =
     (if k = ''token_ids'' then Values_at q k @ map (\<lambda>t. Sprintf_d (sint t)) ts
      else Values_at q k)"
  by (simp add: token_ids_if_def Values_at_add_token_ids)

lemma Values_at_contract_addresses_if:
  "Values_at (contract_addresses_if String NullAddress as q) k =
     (if k = ''asset_contract_addresses''
      then Values_at q k @ map String (filter (\<lambda>a. String a \<noteq> [] \<and> a \<noteq> NullAddress) as)
      else Values_at q k)"
  by (simp add: contract_addresses_if_def Values_at_add_contract_addresses)

lemma Values_at_contract_addresses_part_001_if:
  "Values_at (contract_addresses_part_001_if String NullAddress as q) k =
     (if k = ''asset_contract_addresses''
      then Values_at q k
        @ map (\<lambda>a. Sprintf_d_string (String a)) (filter (\<lambda>a. a \<noteq> NullAddress) as)
      else Values_at q k)"
  by (simp add: contract_addresses_part_001_if_def Values_at_add_contract_addresses_part_001)

lemmas Values_at_steps =
  Values_at_Nil Values_at_Set Values_at_Del Values_at_set_if Values_at_set_positive
  set_include_orders_id Values_at_token_ids_if Values_at_contract_addresses_if
  Values_at_contract_addresses_part_001_if

lemma distinct_steps:
  "distinct (map fst q) \<Longrightarrow> distinct (map fst (set_if c key val q))"
  "distinct (map fst q) \<Longrightarrow> distinct (map fst (set_positive key x q))"
  "distinct (map fst q) \<Longrightarrow> distinct (map fst (token_ids_if ts q))"
  "distinct (map fst q) \<Longrightarrow> distinct (map fst (contract_addresses_if String NullAddress as q))"
  "distinct (map fst q)
     \<Longrightarrow> distinct (map fst (contract_addresses_part_001_if String NullAddress as q))"
  by (simp_all add: set_if_def set_positive_def token_ids_if_def contract_addresses_if_def
      contract_addresses_part_001_if_def distinct_Values_Set distinct_add_token_ids
      distinct_add_contract_addresses distinct_add_contract_addresses_part_001
      split: option.split)

lemmas step_defs = set_if_def set_positive_def set_include_orders_def token_ids_if_def
  contract_addresses_if_def contract_addresses_part_001_if_def

lemma Encode_Values_steps:
  "Encode_Values String NullAddress p =
     set_include_orders (IncludeOrders p)
      (set_positive ''limit'' (Limit p)
      (set_positive ''cursor'' (Cursor p)
      (contract_addresses_if String NullAddress (AssetContractAddresses p)
      (Values_Del ''asset_contract_addresses''
      (set_if (String (AssetContractAddress p) \<noteq> [] \<and> AssetContractAddress p \<noteq> NullAddress)
         ''asset_contract_address'' (String (AssetContractAddress p))
      (set_if (OrderDirection p \<noteq> []) ''order_direction'' (OrderDirection p)
      (set_if (CollectionEditor p \<noteq> []) ''collection_editor'' (Collection p)
      (set_if (CollectionSlug p \<noteq> []) ''collection_slug'' (Collection p)
      (set_if (Collection p \<noteq> []) ''collection'' (Collection p)
      (token_ids_if (TokenIDs p)
      (set_if (String (Owner p) \<noteq> [] \<and> Owner p \<noteq> NullAddress) ''owner'' (String (Owner p))
         [])))))))))))"
  unfolding Encode_Values_def Let_def step_defs by (rule refl)

lemma Encode_Values_part_001_steps:
  "Encode_Values_part_001 String NullAddress p =
     set_if True ''offset'' (Sprintf_d (Offset0 p))
      (set_if True ''limit'' (Sprintf_d (Limit0 p))
      (set_if (Collection0 p \<noteq> []) ''collection'' (Collection0 p)
      (set_if (OrderDirection0 p \<noteq> []) ''order_direction'' (OrderDirection0 p)
      (set_if (OrderBy0 p \<noteq> []) ''order_by'' (OrderBy0 p)
      (contract_addresses_part_001_if String NullAddress (AssetContractAddresses0 p)
      (Values_Del ''asset_contract_addresses''
      (set_if (AssetContractAddress0 p \<noteq> NullAddress)
         ''asset_contract_address'' (String (AssetContractAddress0 p))
      (token_ids_if (TokenIDs0 p)
      (set_if (AssetContractAddress0 p \<noteq> NullAddress) ''owner'' (String (Owner0 p))
         [])))))))))"
  unfolding Encode_Values_part_001_def Let_def step_defs if_True by (rule refl)

lemma Encode_Values_part_000_steps:
  "Encode_Values_part_000 String NullAddress p =
     set_if True ''include_orders'' ''false''
      (set_if True ''offset'' (Sprintf_d (Offset0 p))
      (set_if True ''limit'' (Sprintf_d (Limit0 p))
      (set_if (Collection0 p \<noteq> []) ''collection'' (Collection0 p)
      (set_if (OrderDirection0 p \<noteq> []) ''order_direction'' (OrderDirection0 p)
      (set_if (OrderBy0 p \<noteq> []) ''order_by'' (OrderBy0 p)
      (contract_addresses_if String NullAddress (AssetContractAddresses0 p)
      (Values_Del ''asset_contract_addresses''
      (set_if (String (AssetContractAddress0 p) \<noteq> [] \<and> AssetContractAddress0 p \<noteq> NullAddress)
         ''asset_contract_address'' (String (AssetContractAddress0 p))
      (token_ids_if (TokenIDs0 p)
      (set_if (String (Owner0 p) \<noteq> [] \<and> Owner0 p \<noteq> NullAddress) ''owner'' (String (Owner0 p))
         []))))))))))"
  unfolding Encode_Values_part_000_def Let_def step_defs if_True by (rule refl)

lemma distinct_Encode_Values: "distinct (map fst (Encode_Values String NullAddress p))"
  by (simp add: Encode_Values_steps set_include_orders_id distinct_steps distinct_Values_Del)

lemma distinct_Encode_Values_part_001:
  "distinct (map fst (Encode_Values_part_001 String NullAddress p))"
  by (simp add: Encode_Values_part_001_steps distinct_steps distinct_Values_Del)

lemma distinct_Encode_Values_part_000:
  "distinct (map fst (Encode_Values_part_000 String NullAddress p))"
  by (simp add: Encode_Values_part_000_steps distinct_steps distinct_Values_Del)

text \<open>The values of a key in the encoded string are the values of the key in \<open>q\<close>.\<close>

lemma query_values_Encode:
  "query_values (Encode String NullAddress p) k = Values_at (Encode_Values String NullAddress p) k"
  by (simp add: Encode_def query_values_Values_Encode distinct_Encode_Values)

lemma query_values_Encode_part_001:
  "query_values (Encode_part_001 String NullAddress p) k
     = Values_at (Encode_Values_part_001 String NullAddress p) k"
  by (simp add: Encode_part_001_def query_values_Values_Encode distinct_Encode_Values_part_001)

lemma query_values_Encode_part_000:
  "query_values (Encode_part_000 String NullAddress p) k
     = Values_at (Encode_Values_part_000 String NullAddress p) k"
  by (simp add: Encode_part_000_def query_values_Values_Encode distinct_Encode_Values_part_000)

text \<open>What opensea-client.go writes under each of its keys.\<close>

lemma Encode_owner:
  "query_values (Encode String NullAddress p) ''owner'' =
     (if String (Owner p) \<noteq> [] \<and> Owner p \<noteq> NullAddress then [String (Owner p)] else [])"
  by (simp add: query_values_Encode Encode_Values_steps Values_at_steps)

lemma Encode_asset_contract_address:
  "query_values (Encode String NullAddress p) ''asset_contract_address'' =
     (if String (AssetContractAddress p) \<noteq> [] \<and> AssetContractAddress p \<noteq> NullAddress
      then [String (AssetContractAddress p)] else [])"
  by (simp add: query_values_Encode Encode_Values_steps Values_at_steps)

lemma Encode_token_ids:
  "query_values (Encode String NullAddress p) ''token_ids'' =
     map (\<lambda>t. Sprintf_d (sint t)) (TokenIDs p)"
  by (simp add: query_values_Encode Encode_Values_steps Values_at_steps)

lemma Encode_asset_contract_addresses:
  "query_values (Encode String NullAddress p) ''asset_contract_addresses'' =
     map String (filter (\<lambda>a. String a \<noteq> [] \<and> a \<noteq> NullAddress) (AssetContractAddresses p))"
  by (simp add: query_values_Encode Encode_Values_steps Values_at_steps)

lemma Encode_collection_slug:
  "query_values (Encode String NullAddress p) ''collection_slug'' =
     (if CollectionSlug p \<noteq> [] then [Collection p] else [])"
  by (simp add: query_values_Encode Encode_Values_steps Values_at_steps)

lemma Encode_collection_editor:
  "query_values (Encode String NullAddress p) ''collection_editor'' =
     (if CollectionEditor p \<noteq> [] then [Collection p] else [])"
  by (simp add: query_values_Encode Encode_Values_steps Values_at_steps)

lemma Encode_cursor:
  "query_values (Encode String NullAddress p) ''cursor'' =
     (case Cursor p of None \<Rightarrow> [] | Some c \<Rightarrow> if 0 < c then [Sprintf_d c] else [])"
  by (simp add: query_values_Encode Encode_Values_steps Values_at_steps split: option.split)

lemma Encode_limit:
  "query_values (Encode String NullAddress p) ''limit'' =
     (case Limit p of None \<Rightarrow> [] | Some l \<Rightarrow> if 0 < l then [Sprintf_d l] else [])"
  by (simp add: query_values_Encode Encode_Values_steps Values_at_steps split: option.split)

lemma Encode_include_orders:
  "query_values (Encode String NullAddress p) ''include_orders'' = []"
  by (simp add: query_values_Encode Encode_Values_steps Values_at_steps split: option.split)

section \<open>Decimal rendering\<close>

lemma digit_char_props:
  "d < 10 \<Longrightarrow> is_digit (digit_char d) \<and> digit_val (digit_char d) = d
     \<and> (digit_char d = CHR ''0'' \<longleftrightarrow> d = 0) \<and> digit_char d \<noteq> CHR ''-''
     \<and> \<not> shouldEscape (digit_char d)"
proof -
  assume "d < 10"
  then have "d = 0 \<or> d = 1 \<or> d = 2 \<or> d = 3 \<or> d = 4 \<or> d = 5 \<or> d = 6 \<or> d = 7 \<or> d = 8 \<or> d = 9"
    by presburger
  then show ?thesis
    by (elim disjE) (simp_all add: digit_char_def is_digit_def digit_val_def shouldEscape_def)
qed

lemma nat_of_digits_snoc: "nat_of_digits (ds @ [c]) = 10 * nat_of_digits ds + digit_val c"
  by (simp add: nat_of_digits_def)

lemma FormatUint_props:
  "FormatUint n \<noteq> [] \<and> list_all is_digit (FormatUint n) \<and> nat_of_digits (FormatUint n) = n
     \<and> (hd (FormatUint n) = CHR ''0'' \<longleftrightarrow> n = 0) \<and> hd (FormatUint n) \<noteq> CHR ''-''
     \<and> list_all (\<lambda>c. \<not> shouldEscape c) (FormatUint n)"
proof (induction n rule: FormatUint.induct)
  case (1 n)
  show ?case
  proof (cases "n < 10")
    case True
    then show ?thesis
      using digit_char_props[of n] by (simp add: FormatUint.simps[of n] nat_of_digits_def)
  next
    case False
    have eq: "FormatUint n = FormatUint (n div 10) @ [digit_char (n mod 10)]"
      using False by (subst FormatUint.simps) simp
    have m: "n mod 10 < 10" by simp
    have d: "n div 10 \<noteq> 0" "n \<noteq> 0" using False by simp_all
    have e: "10 * (n div 10) + n mod 10 = n" by simp
    note ih = 1[OF False]
    from ih d e digit_char_props[OF m] show ?thesis
      unfolding eq by (simp add: nat_of_digits_snoc)
  qed
qed

lemma FormatUint_zero: "FormatUint 0 = ''0''"
  by (simp add: FormatUint.simps digit_char_def)

lemma canonical_decimal_Sprintf_d: "canonical_decimal (Sprintf_d i)"
proof (cases "i < 0")
  case True
  then have "nat (- i) \<noteq> 0" by simp
  with True FormatUint_props[of "nat (- i)"] show ?thesis
    by (simp add: canonical_decimal_def Sprintf_d_def)
next
  case False
  obtain c cs where f: "FormatUint (nat i) = c # cs"
    using FormatUint_props[of "nat i"] by (cases "FormatUint (nat i)") auto
  have z: "c = CHR ''0'' \<Longrightarrow> c # cs = ''0''"
    using FormatUint_props[of "nat i"] f FormatUint_zero by auto
  from False f z FormatUint_props[of "nat i"] show ?thesis
    by (auto simp: canonical_decimal_def Sprintf_d_def)
qed

lemma int_of_decimal_Sprintf_d: "int_of_decimal (Sprintf_d i) = i"
proof (cases "i < 0")
  case True
  with FormatUint_props[of "nat (- i)"] show ?thesis
    by (simp add: int_of_decimal_def Sprintf_d_def)
next
  case False
  obtain c cs where f: "FormatUint (nat i) = c # cs"
    using FormatUint_props[of "nat i"] by (cases "FormatUint (nat i)") auto
  from False f FormatUint_props[of "nat i"] show ?thesis
    by (auto simp: int_of_decimal_def Sprintf_d_def)
qed

lemma QueryEscape_id: "list_all (\<lambda>c. \<not> shouldEscape c) s \<Longrightarrow> QueryEscape s = s"
  by (induction s) (auto simp: QueryEscape_def escape_byte_def shouldEscape_def)

lemma QueryEscape_Sprintf_d: "QueryEscape (Sprintf_d i) = Sprintf_d i"
proof -
  have "\<not> shouldEscape CHR ''-''" by (simp add: shouldEscape_def)
  then have "list_all (\<lambda>c. \<not> shouldEscape c) (Sprintf_d i)"
    using FormatUint_props[of "nat (- i)"] FormatUint_props[of "nat i"]
    by (simp add: Sprintf_d_def)
  then show ?thesis by (rule QueryEscape_id)
qed

lemmas eval_Encode = Encode_def Encode_Values_def Encode_part_001_def Encode_Values_part_001_def
  Encode_part_000_def Encode_Values_part_000_def Let_def
  Values_Encode_def Values_entries_def Values_Set_def Values_Add_def Values_Del_def Values_at_def
  write_pair_def QueryEscape_def escape_byte_def shouldEscape_def upperhex_def
  ParseBool_def Sprintf_v_def FormatBool_def Sprintf_d_def Sprintf_d_string_def
  FormatUint.simps digit_char_def String_hex_def NullAddress_hex_def no_params_def no_params0_def

section \<open>The other revisions, key by key\<close>

lemma Encode_part_001_owner:
  "query_values (Encode_part_001 String NullAddress p) ''owner'' =
     (if AssetContractAddress0 p \<noteq> NullAddress then [String (Owner0 p)] else [])"
  by (simp add: query_values_Encode_part_001 Encode_Values_part_001_steps Values_at_steps)

lemma Encode_part_001_asset_contract_address:
  "query_values (Encode_part_001 String NullAddress p) ''asset_contract_address'' =
     (if AssetContractAddress0 p \<noteq> NullAddress then [String (AssetContractAddress0 p)] else [])"
  by (simp add: query_values_Encode_part_001 Encode_Values_part_001_steps Values_at_steps)

lemma Encode_part_001_token_ids:
  "query_values (Encode_part_001 String NullAddress p) ''token_ids'' =
     map (\<lambda>t. Sprintf_d (sint t)) (TokenIDs0 p)"
  by (simp add: query_values_Encode_part_001 Encode_Values_part_001_steps Values_at_steps)

lemma Encode_part_001_asset_contract_addresses:
  "query_values (Encode_part_001 String NullAddress p) ''asset_contract_addresses'' =
     map (\<lambda>a. Sprintf_d_string (String a))
       (filter (\<lambda>a. a \<noteq> NullAddress) (AssetContractAddresses0 p))"
  by (simp add: query_values_Encode_part_001 Encode_Values_part_001_steps Values_at_steps)

lemma Encode_part_000_owner:
  "query_values (Encode_part_000 String NullAddress p) ''owner'' =
     (if String (Owner0 p) \<noteq> [] \<and> Owner0 p \<noteq> NullAddress then [String (Owner0 p)] else [])"
  by (simp add: query_values_Encode_part_000 Encode_Values_part_000_steps Values_at_steps)

lemma Encode_part_000_asset_contract_address:
  "query_values (Encode_part_000 String NullAddress p) ''asset_contract_address'' =
     (if String (AssetContractAddress0 p) \<noteq> [] \<and> AssetContractAddress0 p \<noteq> NullAddress
      then [String (AssetContractAddress0 p)] else [])"
  by (simp add: query_values_Encode_part_000 Encode_Values_part_000_steps Values_at_steps)

lemma Encode_part_000_token_ids:
  "query_values (Encode_part_000 String NullAddress p) ''token_ids'' =
     map (\<lambda>t. Sprintf_d (sint t)) (TokenIDs0 p)"
  by (simp add: query_values_Encode_part_000 Encode_Values_part_000_steps Values_at_steps)

lemma Encode_part_000_asset_contract_addresses:
  "query_values (Encode_part_000 String NullAddress p) ''asset_contract_addresses'' =
     map String (filter (\<lambda>a. String a \<noteq> [] \<and> a \<noteq> NullAddress) (AssetContractAddresses0 p))"
  by (simp add: query_values_Encode_part_000 Encode_Values_part_000_steps Values_at_steps)

lemma Encode_part_000_limit_include_orders:
  "query_values (Encode_part_000 String NullAddress p) ''limit'' = [Sprintf_d (Limit0 p)]"
  "query_values (Encode_part_000 String NullAddress p) ''include_orders'' = [''false'']"
  by (simp_all add: query_values_Encode_part_000 Encode_Values_part_000_steps Values_at_steps)

text \<open>
  In opensea-client.go and in unnamed/part_000 a null owner and a null contract address
  are left out of the query string.
\<close>

lemma Encode_null_address_omitted:
  "Owner p = NullAddress \<Longrightarrow> ''owner'' \<notin> set (query_keys (Encode String NullAddress p))"
  "AssetContractAddress p = NullAddress
     \<Longrightarrow> ''asset_contract_address'' \<notin> set (query_keys (Encode String NullAddress p))"
  by (simp_all add: in_query_keys Encode_owner Encode_asset_contract_address)

lemma Encode_part_000_null_address_omitted:
  "Owner0 p = NullAddress \<Longrightarrow> ''owner'' \<notin> set (query_keys (Encode_part_000 String NullAddress p))"
  "AssetContractAddress0 p = NullAddress
     \<Longrightarrow> ''asset_contract_address'' \<notin> set (query_keys (Encode_part_000 String NullAddress p))"
  by (simp_all add: in_query_keys Encode_part_000_owner Encode_part_000_asset_contract_address)

lemma Encode_part_001_null_contract_address_omitted:
  "AssetContractAddress0 p = NullAddress
     \<Longrightarrow> ''asset_contract_address'' \<notin> set (query_keys (Encode_part_001 String NullAddress p))"
  by (simp add: in_query_keys Encode_part_001_asset_contract_address)

section \<open>The claims on the query encoder\<close>

text \<open>
  C1. The encoder is to include \<open>limit\<close>, \<open>cursor\<close> and \<open>include_orders\<close> only when their
  pointer is set, \<open>include_orders\<close> whenever it is set. In opensea-client.go the branch of
  \<open>include_orders\<close> tests the error of \<open>ParseBool\<close> for being non-nil, so it never writes
  the key: with \<open>IncludeOrders\<close> pointing to \<open>true\<close> and nothing else set, the query string
  is empty.
\<close>

theorem C1_include_orders_set_and_not_encoded:
  "IncludeOrders (no_params\<lparr>IncludeOrders := Some True\<rparr>) = Some True
   \<and> Encode String_hex NullAddress_hex (no_params\<lparr>IncludeOrders := Some True\<rparr>) = []"
  by (simp add: eval_Encode)

text \<open>
  C2. A parameter record whose owner is the null address is to give a query string
  without the key \<open>owner\<close>. The revision unnamed/part_001 guards \<open>owner\<close> with the contract
  address: with a null owner and a contract address \<open>0xabc\<close> it writes the null address
  under \<open>owner\<close>.
\<close>

theorem C2_part_001_null_owner_encoded:
  "Owner0 (no_params0\<lparr>Owner0 := NullAddress_hex, AssetContractAddress0 := ''0xabc''\<rparr>)
     = NullAddress_hex
   \<and> Encode_part_001 String_hex NullAddress_hex
       (no_params0\<lparr>Owner0 := NullAddress_hex, AssetContractAddress0 := ''0xabc''\<rparr>)
     = ''asset_contract_address=0xabc&limit=0&offset=0&owner=0x0000000000000000000000000000000000000000''"
  by (simp add: eval_Encode)

text \<open>
  C5, as stated: the encoder leaves out exactly the entries of the contract-address list
  that equal the null address. It fails on opensea-client.go for an address whose string
  form is empty: the empty address is not the null address, and it is left out too.
\<close>

theorem C5_empty_address_excluded:
  "[] \<noteq> NullAddress_hex
   \<and> query_values
       (Encode String_hex NullAddress_hex (no_params\<lparr>AssetContractAddresses := [[], ''0x1'']\<rparr>))
       ''asset_contract_addresses''
     = [''0x1'']"
  by (simp add: Encode_asset_contract_addresses) (simp add: String_hex_def NullAddress_hex_def no_params_def)

text \<open>
  C5, amended: opensea-client.go leaves out exactly the entries of the contract-address
  list that equal the null address or have an empty string form, and writes every other
  entry, in the order of the list, as one value of the key \<open>asset_contract_addresses\<close>, the
  value being the string form of the address.
\<close>

theorem C5_contract_addresses:
  "query_values (Encode String NullAddress p) ''asset_contract_addresses'' =
     map String (filter (\<lambda>a. String a \<noteq> [] \<and> a \<noteq> NullAddress) (AssetContractAddresses p))"
  by (rule Encode_asset_contract_addresses)

theorem C5_contract_addresses_witness:
  "query_values
     (Encode String_hex NullAddress_hex
       (no_params\<lparr>AssetContractAddresses := [''0x1'', NullAddress_hex, [], ''0x2'']\<rparr>))
     ''asset_contract_addresses''
   = [''0x1'', ''0x2'']"
  using C5_contract_addresses
    [of String_hex NullAddress_hex
        "no_params\<lparr>AssetContractAddresses := [''0x1'', NullAddress_hex, [], ''0x2'']\<rparr>"]
  by (simp add: String_hex_def NullAddress_hex_def no_params_def)

text \<open>
  C6. A non-empty \<open>CollectionSlug\<close> is to be written under \<open>collection_slug\<close> with its own
  value, and a non-empty \<open>CollectionEditor\<close> under \<open>collection_editor\<close> with its own value.
  opensea-client.go writes the field \<open>Collection\<close> under both keys.
\<close>

theorem C6_slug_and_editor_carry_collection:
  "Encode String_hex NullAddress_hex (no_params\<lparr>CollectionSlug := ''cool-cats''\<rparr>)
     = ''collection_slug=''
   \<and> Encode String_hex NullAddress_hex
       (no_params\<lparr>Collection := ''a'', CollectionSlug := ''b'', CollectionEditor := ''c''\<rparr>)
     = ''collection=a&collection_editor=a&collection_slug=a''"
  by (simp add: eval_Encode)

text \<open>
  C7. For a non-empty list of token IDs the query string has one value of \<open>token_ids\<close> per
  element of the list, in the order of the list, and every value is the element as a
  base-10 integer without anomalies. This holds in opensea-client.go and in
  unnamed/part_001.
\<close>

theorem C7_token_ids:
  "(TokenIDs p \<noteq> [] \<longrightarrow>
      query_values (Encode String NullAddress p) ''token_ids''
        = map (\<lambda>t. Sprintf_d (sint t)) (TokenIDs p)
      \<and> length (query_values (Encode String NullAddress p) ''token_ids'') = length (TokenIDs p)
      \<and> map int_of_decimal (query_values (Encode String NullAddress p) ''token_ids'')
          = map sint (TokenIDs p)
      \<and> list_all canonical_decimal (query_values (Encode String NullAddress p) ''token_ids''))
   \<and> (TokenIDs0 p0 \<noteq> [] \<longrightarrow>
      query_values (Encode_part_001 String NullAddress p0) ''token_ids''
        = map (\<lambda>t. Sprintf_d (sint t)) (TokenIDs0 p0)
      \<and> length (query_values (Encode_part_001 String NullAddress p0) ''token_ids'')
          = length (TokenIDs0 p0)
      \<and> map int_of_decimal (query_values (Encode_part_001 String NullAddress p0) ''token_ids'')
          = map sint (TokenIDs0 p0)
      \<and> list_all canonical_decimal
          (query_values (Encode_part_001 String NullAddress p0) ''token_ids''))"
  by (simp add: Encode_token_ids Encode_part_001_token_ids comp_def int_of_decimal_Sprintf_d
      canonical_decimal_Sprintf_d list_all_iff)

theorem C7_token_ids_witness:
  "TokenIDs (no_params\<lparr>TokenIDs := [7, - 3, 2147483647]\<rparr>) \<noteq> []
   \<and> TokenIDs0 (no_params0\<lparr>TokenIDs0 := [0, 10]\<rparr>) \<noteq> []
   \<and> query_values
       (Encode String_hex NullAddress_hex (no_params\<lparr>TokenIDs := [7, - 3, 2147483647]\<rparr>))
       ''token_ids''
     = [''7'', ''-3'', ''2147483647'']
   \<and> query_values
       (Encode_part_001 String_hex NullAddress_hex (no_params0\<lparr>TokenIDs0 := [0, 10]\<rparr>))
       ''token_ids''
     = [''0'', ''10'']
   \<and> Encode String_hex NullAddress_hex (no_params\<lparr>TokenIDs := [7, - 3, 2147483647]\<rparr>)
     = ''token_ids=7&token_ids=-3&token_ids=2147483647''"
  using C7_token_ids
    [of "no_params\<lparr>TokenIDs := [7, - 3, 2147483647]\<rparr>" String_hex NullAddress_hex
        "no_params0\<lparr>TokenIDs0 := [0, 10]\<rparr>"]
  by (simp add: eval_Encode)

section \<open>Properties of the client\<close>

lemma starts_with_append: "starts_with (sub @ rest) sub"
  by (induction sub) simp_all

lemma contains_append: "contains (pre @ sub @ rest) sub"
proof (induction pre)
  case Nil
  show ?case
  proof (cases "sub @ rest")
    case Nil
    then show ?thesis by simp
  next
    case (Cons a list)
    with starts_with_append[of sub rest] show ?thesis by simp
  qed
next
  case (Cons a pre)
  then show ?case by simp
qed

lemma contains_suffix: "contains (pre @ sub) sub"
  using contains_append[of pre sub "[]"] by simp

text \<open>What \<open>getURL\<close> returns when the transport answers with a status code and a body.\<close>

lemma getURL_responds:
  assumes "responds L os url status body"
  shows "getURL L os url =
     (if status \<noteq> 200 then
        (case Unmarshal_errorResponse L body \<lparr>Success = False\<rparr> of
           (e, Some err) \<Rightarrow> Inl err
         | (e, None) \<Rightarrow>
             if \<not> Success e then Inl (ErrorResponse e)
             else Inl (Errorf (''backend returns status '' @ Sprintf_d status @ '' msg: '' @ body)))
      else Inr body)"
  using assms
  by (simp add: getURL_def NewRequestWithContext_def Header_Add_def responds_def
      get_request_def Let_def split: prod.split option.split)

lemma GetAssetsWithContext_getURL:
  "GetAssetsWithContext L String NullAddress os params =
     (case getURL L os (assets_url String NullAddress os params) of
        Inl err \<Rightarrow> (None, Some err)
      | Inr body \<Rightarrow>
          (Some (fst (Unmarshal_AssetResponse L body (new_AssetResponse L))),
           snd (Unmarshal_AssetResponse L body (new_AssetResponse L))))"
  by (simp add: GetAssetsWithContext_def GetPath_def assets_url_def Let_def
      split: sum.split prod.split)

lemma GetSingleAssetWithContext_getURL:
  "GetSingleAssetWithContext L os assetContractAddress tokenID =
     (case getURL L os (single_asset_url os assetContractAddress tokenID) of
        Inl err \<Rightarrow> (None, Some err)
      | Inr body \<Rightarrow>
          (Some (fst (Unmarshal_Asset L body (new_Asset L))),
           snd (Unmarshal_Asset L body (new_Asset L))))"
  by (simp add: GetSingleAssetWithContext_def GetPath_def single_asset_url_def Let_def
      split: sum.split prod.split)

text \<open>The two calls hand an error of \<open>getURL\<close> on, with a nil result.\<close>

lemma error_passed_on:
  "getURL L os (assets_url String NullAddress os params) = Inl err
     \<Longrightarrow> GetAssetsWithContext L String NullAddress os params = (None, Some err)"
  "getURL L os (single_asset_url os assetContractAddress tokenID) = Inl err
     \<Longrightarrow> GetSingleAssetWithContext L os assetContractAddress tokenID = (None, Some err)"
  by (simp_all add: GetAssetsWithContext_getURL GetSingleAssetWithContext_getURL)

lemma responds_mock_client: "responds stub_stdlib (mock_client status body) url status body"
  by (simp add: responds_def stub_stdlib_def mock_client_def mock_transport_def)

lemmas eval_stub = stub_stdlib_def stub_Unmarshal_errorResponse_def stub_Unmarshal_def
  json_objects_def syntax_error_def

section \<open>The claims on the client\<close>

text \<open>
  C3, as stated: on a non-2xx status with a body that does not decode into the envelope,
  the error's message carries the status code and the body. It fails: on status 500 with
  the body \<open><html>\<close> the list call returns the decoder's error, whose message has neither.
\<close>

theorem C3_decode_error_returned:
  "\<not> is_2xx 500
   \<and> stub_Unmarshal_errorResponse ''<html>'' \<lparr>Success = False\<rparr>
       = (\<lparr>Success = False\<rparr>, Some syntax_error)
   \<and> GetAssetsWithContext stub_stdlib String_hex NullAddress_hex (mock_client 500 ''<html>'')
       no_params = (None, Some syntax_error)
   \<and> \<not> contains (Error syntax_error) ''500''
   \<and> \<not> contains (Error syntax_error) ''<html>''"
  using getURL_responds[OF responds_mock_client, of 500 "''<html>''"]
  by (simp add: GetAssetsWithContext_getURL eval_stub is_2xx_def)

text \<open>
  C3, amended: on a non-2xx status with a body that does not decode into the envelope,
  the request method returns the decoder's error as it is. The error whose message
  carries the decimal status code and the raw body is returned when the body decodes
  into the envelope with the success flag true. The list call and the single-asset call
  hand the error of \<open>getURL\<close> on with a nil result (\<open>error_passed_on\<close>).
\<close>

theorem C3_non_2xx_errors:
  assumes "responds L os url status body" and "\<not> is_2xx status"
  shows "(\<forall>e err. Unmarshal_errorResponse L body \<lparr>Success = False\<rparr> = (e, Some err)
            \<longrightarrow> getURL L os url = Inl err)
       \<and> (\<forall>e. Unmarshal_errorResponse L body \<lparr>Success = False\<rparr> = (e, None) \<and> Success e
            \<longrightarrow> (\<exists>msg. getURL L os url = Inl (Errorf msg)
                  \<and> Error (Errorf msg) = msg
                  \<and> contains msg (Sprintf_d status) \<and> contains msg body))"
proof -
  have c1: "contains (''backend returns status '' @ Sprintf_d status @ '' msg: '' @ body)
      (Sprintf_d status)"
    by (rule contains_append)
  have c2: "contains (''backend returns status '' @ Sprintf_d status @ '' msg: '' @ body) body"
    using contains_suffix[of "''backend returns status '' @ Sprintf_d status @ '' msg: ''" body]
    by simp
  from assms(2) have "status \<noteq> 200" by (auto simp: is_2xx_def)
  then show ?thesis
    using c1 c2 by (simp add: getURL_responds[OF assms(1)])
qed

theorem C3_non_2xx_errors_witness:
  "responds stub_stdlib (mock_client 500 ''<html>'') ''https://api.opensea.io/api/v1/assets/?''
     500 ''<html>''
   \<and> \<not> is_2xx 500
   \<and> getURL stub_stdlib (mock_client 500 ''<html>'') ''https://api.opensea.io/api/v1/assets/?''
       = Inl syntax_error
   \<and> stub_Unmarshal_errorResponse ''{\"success\": true}'' \<lparr>Success = False\<rparr>
       = (\<lparr>Success = True\<rparr>, None)
   \<and> getURL stub_stdlib (mock_client 500 ''{\"success\": true}'')
       ''https://api.opensea.io/api/v1/assets/?''
     = Inl (Errorf ''backend returns status 500 msg: {\"success\": true}'')
   \<and> contains ''backend returns status 500 msg: {\"success\": true}'' ''500''
   \<and> contains ''backend returns status 500 msg: {\"success\": true}'' ''{\"success\": true}''"
  using C3_non_2xx_errors
      [OF responds_mock_client, of 500 "''<html>''" "''https://api.opensea.io/api/v1/assets/?''"]
    C3_non_2xx_errors
      [OF responds_mock_client, of 500 "''{\"success\": true}''"
        "''https://api.opensea.io/api/v1/assets/?''"]
    responds_mock_client[of 500 "''<html>''" "''https://api.opensea.io/api/v1/assets/?''"]
    getURL_responds
      [OF responds_mock_client, of 500 "''{\"success\": true}''"
        "''https://api.opensea.io/api/v1/assets/?''"]
  by (simp add: eval_stub is_2xx_def Sprintf_d_def FormatUint.simps digit_char_def)

text \<open>
  C4, as stated: on every 2xx status the body is decoded into the target and the
  envelope is not consulted. It fails on status 201: the body, a list response, is
  decoded as an envelope, its absent success flag reads false, and the list call returns
  a nil result with the error of the envelope.
\<close>

theorem C4_status_201_takes_envelope_path:
  "is_2xx 201
   \<and> stub_Unmarshal ''{\"assets\": []}'' () = ((), None)
   \<and> GetAssetsWithContext stub_stdlib String_hex NullAddress_hex
       (mock_client 201 ''{\"assets\": []}'') no_params
     = (None, Some (ErrorResponse \<lparr>Success = False\<rparr>))"
  using getURL_responds[OF responds_mock_client, of 201 "''{\"assets\": []}''"]
  by (simp add: GetAssetsWithContext_getURL eval_stub is_2xx_def)

text \<open>
  C4, amended: on status 200 the body is decoded into the target, the result is the
  target and whatever the decoder returned (an error as it is), and the decoder of the
  envelope has no part in it: another one in its place gives the same result. This holds
  for the list call and for the single-asset call.
\<close>

theorem C4_status_200_decodes_directly:
  "(responds L os (assets_url String NullAddress os params) 200 body \<longrightarrow>
      GetAssetsWithContext L String NullAddress os params
        = (Some (fst (Unmarshal_AssetResponse L body (new_AssetResponse L))),
           snd (Unmarshal_AssetResponse L body (new_AssetResponse L)))
      \<and> GetAssetsWithContext (L\<lparr>Unmarshal_errorResponse := u\<rparr>) String NullAddress os params
        = GetAssetsWithContext L String NullAddress os params)
   \<and> (responds L os (single_asset_url os assetContractAddress tokenID) 200 body' \<longrightarrow>
      GetSingleAssetWithContext L os assetContractAddress tokenID
        = (Some (fst (Unmarshal_Asset L body' (new_Asset L))),
           snd (Unmarshal_Asset L body' (new_Asset L)))
      \<and> GetSingleAssetWithContext (L\<lparr>Unmarshal_errorResponse := u\<rparr>) os assetContractAddress
           tokenID
        = GetSingleAssetWithContext L os assetContractAddress tokenID)"
proof -
  have r: "\<And>url status b. responds (L\<lparr>Unmarshal_errorResponse := u\<rparr>) os url status b
      = responds L os url status b"
    by (simp add: responds_def)
  have a: "responds L os url 200 b \<Longrightarrow> getURL L os url = Inr b
      \<and> getURL (L\<lparr>Unmarshal_errorResponse := u\<rparr>) os url = Inr b" for url b
    using getURL_responds[of L os url 200 b]
      getURL_responds[of "L\<lparr>Unmarshal_errorResponse := u\<rparr>" os url 200 b] r
    by simp
  show ?thesis
    using a[of "assets_url String NullAddress os params" body]
      a[of "single_asset_url os assetContractAddress tokenID" body']
    by (simp add: GetAssetsWithContext_getURL GetSingleAssetWithContext_getURL)
qed

theorem C4_status_200_decodes_directly_witness:
  "responds stub_stdlib (mock_client 200 ''{\"assets\": []}'')
     (assets_url String_hex NullAddress_hex (mock_client 200 ''{\"assets\": []}'') no_params)
     200 ''{\"assets\": []}''
   \<and> responds stub_stdlib (mock_client 200 ''{\"assets\": []}'')
     (single_asset_url (mock_client 200 ''{\"assets\": []}'') ''0xabc'' (Some 7))
     200 ''{\"assets\": []}''
   \<and> GetAssetsWithContext stub_stdlib String_hex NullAddress_hex
       (mock_client 200 ''{\"assets\": []}'') no_params = (Some (), None)
   \<and> GetSingleAssetWithContext stub_stdlib (mock_client 200 ''{\"assets\": []}'') ''0xabc''
       (Some 7) = (Some (), None)"
  using C4_status_200_decodes_directly
      [of stub_stdlib "mock_client 200 ''{\"assets\": []}''" String_hex NullAddress_hex no_params
        "''{\"assets\": []}''" "stub_Unmarshal_errorResponse" "''0xabc''" "Some 7"
        "''{\"assets\": []}''"]
    responds_mock_client[of 200 "''{\"assets\": []}''"]
  by (simp add: eval_stub)

text \<open>
  C8. On a non-2xx status with a body that decodes into the envelope with the success
  flag false, the list call returns a nil result and the error of the envelope, whose
  message is the generic \<open>Not success\<close>.
\<close>

theorem C8_not_success:
  assumes "responds L os (assets_url String NullAddress os params) status body"
    and "\<not> is_2xx status"
    and "Unmarshal_errorResponse L body \<lparr>Success = False\<rparr> = (e, None)"
    and "\<not> Success e"
  shows "GetAssetsWithContext L String NullAddress os params = (None, Some (ErrorResponse e))
       \<and> Error (ErrorResponse e) = ''Not success''"
proof -
  from assms(2) have "status \<noteq> 200" by (auto simp: is_2xx_def)
  with assms(3,4) show ?thesis
    by (simp add: GetAssetsWithContext_getURL getURL_responds[OF assms(1)])
qed

theorem C8_not_success_witness:
  "responds stub_stdlib (mock_client 404 ''{\"success\": false}'')
     (assets_url String_hex NullAddress_hex (mock_client 404 ''{\"success\": false}'') no_params)
     404 ''{\"success\": false}''
   \<and> \<not> is_2xx 404
   \<and> stub_Unmarshal_errorResponse ''{\"success\": false}'' \<lparr>Success = False\<rparr>
       = (\<lparr>Success = False\<rparr>, None)
   \<and> GetAssetsWithContext stub_stdlib String_hex NullAddress_hex
       (mock_client 404 ''{\"success\": false}'') no_params
     = (None, Some (ErrorResponse \<lparr>Success = False\<rparr>))"
  using C8_not_success
      [of stub_stdlib "mock_client 404 ''{\"success\": false}''" String_hex NullAddress_hex
        no_params 404 "''{\"success\": false}''" "\<lparr>Success = False\<rparr>"]
    responds_mock_client[of 404 "''{\"success\": false}''"]
  by (simp add: eval_stub is_2xx_def)

text \<open>
  C9. For every contract address and every token ID, however large, the single-asset
  call requests the path \<open>/api/v1/asset/\<close>, the address, a slash and the token ID in
  decimal: the digits are a base-10 integer without anomalies that denotes the token ID.
\<close>

theorem C9_single_asset_path:
  "single_asset_path assetContractAddress (Some n)
     = ''/api/v1/asset/'' @ assetContractAddress @ ''/'' @ Sprintf_d n
   \<and> canonical_decimal (Sprintf_d n) \<and> int_of_decimal (Sprintf_d n) = n
   \<and> GetSingleAssetWithContext L os assetContractAddress (Some n)
     = (case getURL L os (API os @ ''/api/v1/asset/'' @ assetContractAddress @ ''/'' @ Sprintf_d n)
        of Inl err \<Rightarrow> (None, Some err)
         | Inr body \<Rightarrow>
             (Some (fst (Unmarshal_Asset L body (new_Asset L))),
              snd (Unmarshal_Asset L body (new_Asset L))))"
  by (simp add: GetSingleAssetWithContext_getURL single_asset_url_def single_asset_path_def
      big_Int_String_def canonical_decimal_Sprintf_d int_of_decimal_Sprintf_d)

theorem C9_single_asset_path_witness:
  "(2::int) ^ 64 < 123456789012345678901234567890
   \<and> single_asset_path ''0xabc'' (Some 123456789012345678901234567890)
     = ''/api/v1/asset/0xabc/123456789012345678901234567890''
   \<and> int_of_decimal ''123456789012345678901234567890'' = 123456789012345678901234567890
   \<and> GetPath stub_stdlib echo_client
       (single_asset_path ''0xabc'' (Some 123456789012345678901234567890))
     = Inr ''https://api.opensea.io/api/v1/asset/0xabc/123456789012345678901234567890''"
proof -
  have d: "Sprintf_d 123456789012345678901234567890 = ''123456789012345678901234567890''"
    by (simp add: Sprintf_d_def FormatUint.simps digit_char_def)
  have r: "responds stub_stdlib echo_client url 200 url" for url
    by (simp add: responds_def stub_stdlib_def echo_client_def echo_transport_def get_request_def)
  show ?thesis
    using C9_single_asset_path[of "''0xabc''" 123456789012345678901234567890 stub_stdlib echo_client]
      getURL_responds[OF r]
    by (simp add: d GetPath_def echo_client_def)
qed

text \<open>
  C10. On status 200 with a body that fails to decode into the target, the list call
  and the single-asset call return the target they allocated, as the decoder left it,
  together with the decoder's error: the result is not nil.
\<close>

theorem C10_result_with_decode_error:
  "(responds L os (assets_url String NullAddress os params) 200 body
      \<and> Unmarshal_AssetResponse L body (new_AssetResponse L) = (ret, Some err) \<longrightarrow>
      GetAssetsWithContext L String NullAddress os params = (Some ret, Some err))
   \<and> (responds L os (single_asset_url os assetContractAddress tokenID) 200 body'
      \<and> Unmarshal_Asset L body' (new_Asset L) = (ret', Some err') \<longrightarrow>
      GetSingleAssetWithContext L os assetContractAddress tokenID = (Some ret', Some err'))"
  using getURL_responds[of L os "assets_url String NullAddress os params" 200 body]
    getURL_responds[of L os "single_asset_url os assetContractAddress tokenID" 200 body']
  by (auto simp: GetAssetsWithContext_getURL GetSingleAssetWithContext_getURL)

theorem C10_result_with_decode_error_witness:
  "responds stub_stdlib (mock_client 200 ''<html>'')
     (assets_url String_hex NullAddress_hex (mock_client 200 ''<html>'') no_params) 200 ''<html>''
   \<and> responds stub_stdlib (mock_client 200 ''<html>'')
     (single_asset_url (mock_client 200 ''<html>'') ''0xabc'' (Some 7)) 200 ''<html>''
   \<and> stub_Unmarshal ''<html>'' () = ((), Some syntax_error)
   \<and> GetAssetsWithContext stub_stdlib String_hex NullAddress_hex (mock_client 200 ''<html>'')
       no_params = (Some (), Some syntax_error)
   \<and> GetSingleAssetWithContext stub_stdlib (mock_client 200 ''<html>'') ''0xabc'' (Some 7)
       = (Some (), Some syntax_error)"
  using C10_result_with_decode_error
      [of stub_stdlib "mock_client 200 ''<html>''" String_hex NullAddress_hex no_params "''<html>''"
        "()" syntax_error "''0xabc''" "Some 7" "''<html>''" "()" syntax_error]
    responds_mock_client[of 200 "''<html>''"]
  by (simp add: eval_stub)

end
